theory Spec2Isabelle
  imports Main
begin

section \<open>Data exchanged with the remote booking service\<close>

text \<open>
  The React component \<^verbatim>\<open>App\<close> (\<^verbatim>\<open>src/frontend/src/App.jsx\<close>) keeps the booking session in
  ten \<^verbatim>\<open>useState\<close> cells and changes them in four handlers. The handlers are embedded
  below as functions on a record of those cells. Identifiers and timestamps that the
  component only passes along are strings; JavaScript's \<^verbatim>\<open>null\<close> and \<^verbatim>\<open>undefined\<close> are
  both \<open>None\<close> (the component only tests them for truthiness or dereferences them, and
  the two behave alike there).
\<close>

record slot =
  slot_id :: string
  start_time :: string

record spoc =
  spoc_id :: string
  name :: string
  expertise :: string
  specialization :: "string option"
  email :: string
  available_slots :: "slot list"

text \<open>The object built by \<^verbatim>\<open>BookingForm\<close> and handed to \<^verbatim>\<open>onSubmit\<close>.\<close>

record form_data =
  company_name :: string
  contact_name :: string
  contact_email :: string
  contact_phone :: string
  industry :: string
  budget_range :: string
  decision_timeline :: string
  solution_type :: string

text \<open>\<^verbatim>\<open>clientResponse.data\<close>: the handler reads its \<^verbatim>\<open>client_id\<close> only.\<close>

record client_response =
  client_id :: string

text \<open>The object literal \<^verbatim>\<open>bookingData\<close> of \<^verbatim>\<open>handleBookingConfirm\<close>.\<close>

record booking_data =
  client_id :: "string option"
  spoc_id :: string
  slot_id :: string
  meeting_type :: string

text \<open>\<^verbatim>\<open>response.data\<close> of the booking call, with the fields the success view renders.\<close>

record booking_result =
  booking_id :: string
  spoc_name :: string
  start_time :: string
  meeting_link :: "string option"


section \<open>Failures\<close>

text \<open>
  A rejected call carries an Axios error; the handlers read it only through
  \<^verbatim>\<open>err.response?.data?.detail\<close>. The response is absent when the request never got an
  answer (network failure, timeout), the body and its \<^verbatim>\<open>detail\<close> may be missing as well.
  A \<^verbatim>\<open>TypeError\<close> is what JavaScript throws when a property of \<^verbatim>\<open>null\<close> or
  \<^verbatim>\<open>undefined\<close> is read; it has no \<^verbatim>\<open>response\<close>. A \<^verbatim>\<open>detail\<close> that is present is
  taken to be a string, the message the component shows.
\<close>

record error_body =
  detail :: "string option"

record error_response =
  data :: "error_body option"

datatype exn = TypeError | AxiosError "error_response option"

fun response :: "exn \<Rightarrow> error_response option" where
  "response TypeError = None"
| "response (AxiosError r) = r"

text \<open>\<^verbatim>\<open>err.response?.data?.detail\<close>\<close>

definition err_detail :: "exn \<Rightarrow> string option" where
  "err_detail err =
     (case response err of
        None \<Rightarrow> None
      | Some r \<Rightarrow> (case data r of None \<Rightarrow> None | Some b \<Rightarrow> detail b))"

text \<open>\<^verbatim>\<open>x || fallback\<close> on a possibly missing string: the empty string is falsy too.\<close>

definition or_else :: "string option \<Rightarrow> string \<Rightarrow> string" where
  "or_else x fallback =
     (case x of None \<Rightarrow> fallback | Some v \<Rightarrow> (if v = [] then fallback else v))"

section \<open>The remote service and the clock\<close>

text \<open>
  The four calls of \<^verbatim>\<open>services/api\<close> that the component uses. Each either rejects with
  an error or resolves with the \<^verbatim>\<open>data\<close> of the response. \<open>Date_now k\<close> is the \<open>k\<close>-th
  reading of the system clock (milliseconds) taken while a handler runs; timestamps are
  kept as these numbers instead of their ISO rendering. The response interceptor of
  \<^verbatim>\<open>services/api\<close> passes every rejection on to the caller; the navigation to the login
  page that it starts on a 401 answer leaves the component and is not part of the model.
\<close>

record remote =
  clientApi_create :: "form_data \<Rightarrow> exn + client_response"
  spocApi_getAll :: "string \<Rightarrow> exn + spoc list"
  spocApi_getAvailability :: "string \<Rightarrow> int \<Rightarrow> int \<Rightarrow> exn + spoc"
  bookingApi_create :: "booking_data \<Rightarrow> exn + booking_result"
  Date_now :: "nat \<Rightarrow> int"

text \<open>The requests a handler issues, recorded so that what was sent can be stated.\<close>

datatype request =
    CreateClient form_data
  | GetAll string
  | GetAvailability string int int
  | CreateBooking booking_data

section \<open>The session\<close>

datatype step = Form | Spocs | Success

record session =
  step :: step
  clientData :: "form_data option"
  clientId :: "string option"
  spocs :: "spoc list"
  selectedSpoc :: "spoc option"
  selectedSlot :: "slot option"
  showModal :: bool
  bookingResult :: "booking_result option"
  isLoading :: bool
  error :: "string option"

text \<open>The initial values of the \<^verbatim>\<open>useState\<close> cells (lines 9 to 18).\<close>

definition initial :: session where
  "initial =
     \<lparr>step = Form, clientData = None, clientId = None, spocs = [], selectedSpoc = None,
      selectedSlot = None, showModal = False, bookingResult = None, isLoading = False,
      error = None\<rparr>"

text \<open>
  A remote call as it was issued: the request, and the session as the setters called
  before it have left it.
\<close>

type_synonym call = "request \<times> session"


section \<open>Submitting the client form\<close>

text \<open>
  The callback mapped over the candidate list (lines 33 to 44). JavaScript's \<^verbatim>\<open>map\<close>
  passes the position along with the element; the callback of position \<open>i\<close> reads the
  clock twice, for the start and the end of the fourteen-day window. Its own
  \<^verbatim>\<open>try\<close>/\<^verbatim>\<open>catch\<close> turns every failure of the availability call into the candidate
  itself with no slots, so the promise it returns never rejects.
\<close>

definition availabilityRequest :: "remote \<Rightarrow> spoc \<Rightarrow> nat \<Rightarrow> request" where
  "availabilityRequest env spoc i =
     GetAvailability (spoc.spoc_id spoc) (Date_now env (2 * i))
       (Date_now env (2 * i + 1) + 14 * 24 * 60 * 60 * 1000)"

definition availabilityResponse :: "remote \<Rightarrow> spoc \<Rightarrow> nat \<Rightarrow> exn + spoc" where
  "availabilityResponse env spoc i =
     spocApi_getAvailability env (spoc.spoc_id spoc) (Date_now env (2 * i))
       (Date_now env (2 * i + 1) + 14 * 24 * 60 * 60 * 1000)"

definition withAvailability :: "remote \<Rightarrow> spoc \<Rightarrow> nat \<Rightarrow> spoc" where
  "withAvailability env spoc i =
     (case availabilityResponse env spoc i of
        Inr availabilityResponse_data \<Rightarrow> availabilityResponse_data
      | Inl _ \<Rightarrow> spoc\<lparr>available_slots := []\<rparr>)"

text \<open>
  \<^verbatim>\<open>Promise.all(spocsResponse.data.map(...))\<close>: the calls are issued in list order and
  \<^verbatim>\<open>Promise.all\<close> resolves with the results at the positions of their promises, whatever
  the order in which they settle.
\<close>

definition spocsWithAvailability :: "remote \<Rightarrow> spoc list \<Rightarrow> spoc list" where
  "spocsWithAvailability env spocsResponse =
     map (\<lambda>(i, spoc). withAvailability env spoc i) (enumerate 0 spocsResponse)"

definition availabilityRequests :: "remote \<Rightarrow> spoc list \<Rightarrow> request list" where
  "availabilityRequests env spocsResponse =
     map (\<lambda>(i, spoc). availabilityRequest env spoc i) (enumerate 0 spocsResponse)"

text \<open>
  The body of the \<^verbatim>\<open>try\<close> block (lines 24 to 48): the session as the setters that ran
  have left it, the error thrown if any, and the calls issued.
\<close>

definition handleClientSubmit_try ::
  "remote \<Rightarrow> form_data \<Rightarrow> session \<Rightarrow> session \<times> exn option \<times> call list" where
  "handleClientSubmit_try env formData s =
     (case clientApi_create env formData of
        Inl err \<Rightarrow> (s, Some err, [(CreateClient formData, s)])
      | Inr clientResponse \<Rightarrow>
          (let s1 = s\<lparr>clientId := Some (client_response.client_id clientResponse)\<rparr>;
               s2 = s1\<lparr>clientData := Some formData\<rparr>
           in case spocApi_getAll env (solution_type formData) of
                Inl err \<Rightarrow>
                  (s2, Some err,
                   [(CreateClient formData, s), (GetAll (solution_type formData), s2)])
              | Inr spocsResponse \<Rightarrow>
                  (let s3 = s2\<lparr>spocs := spocsWithAvailability env spocsResponse\<rparr>;
                       s4 = s3\<lparr>step := Spocs\<rparr>
                   in (s4, None,
                       [(CreateClient formData, s), (GetAll (solution_type formData), s2)]
                       @ map (\<lambda>r. (r, s2)) (availabilityRequests env spocsResponse)))))"

definition handleClientSubmit :: "remote \<Rightarrow> form_data \<Rightarrow> session \<Rightarrow> session \<times> call list" where
  "handleClientSubmit env formData s =
     (let s1 = s\<lparr>isLoading := True\<rparr>;
          s2 = s1\<lparr>error := None\<rparr>;
          (s3, thrown, calls) = handleClientSubmit_try env formData s2;
          s4 = (case thrown of
                  None \<Rightarrow> s3
                | Some err \<Rightarrow>
                    s3\<lparr>error := Some (or_else (err_detail err) ''Failed to process request.'')\<rparr>)
      in (s4\<lparr>isLoading := False\<rparr>, calls))"

section \<open>Selecting a slot\<close>

text \<open>
  Lines 56 to 61. \<^verbatim>\<open>Array.prototype.find\<close> gives the first element that satisfies the
  test, or \<^verbatim>\<open>undefined\<close>.
\<close>

definition handleSlotSelection :: "string \<Rightarrow> slot \<Rightarrow> session \<Rightarrow> session" where
  "handleSlotSelection spocId slot s =
     (let spoc = find (\<lambda>s'. spoc.spoc_id s' = spocId) (spocs s);
          s1 = s\<lparr>selectedSpoc := spoc\<rparr>;
          s2 = s1\<lparr>selectedSlot := Some slot\<rparr>
      in s2\<lparr>showModal := True\<rparr>)"

section \<open>Confirming the booking\<close>

text \<open>
  The object literal of lines 67 to 72. Reading \<^verbatim>\<open>selectedSpoc.spoc_id\<close> throws when no
  SPOC is selected, and so does \<^verbatim>\<open>selectedSlot.slot_id\<close> when no slot is.
\<close>

definition bookingData :: "session \<Rightarrow> string \<Rightarrow> exn + booking_data" where
  "bookingData s meetingType =
     (case selectedSpoc s of
        None \<Rightarrow> Inl TypeError
      | Some sp \<Rightarrow>
          (case selectedSlot s of
             None \<Rightarrow> Inl TypeError
           | Some sl \<Rightarrow>
               Inr \<lparr>client_id = clientId s, spoc_id = spoc.spoc_id sp,
                    slot_id = slot.slot_id sl, meeting_type = meetingType\<rparr>))"

definition handleBookingConfirm_try ::
  "remote \<Rightarrow> string \<Rightarrow> session \<Rightarrow> session \<times> exn option \<times> call list" where
  "handleBookingConfirm_try env meetingType s =
     (case bookingData s meetingType of
        Inl err \<Rightarrow> (s, Some err, [])
      | Inr bd \<Rightarrow>
          (case bookingApi_create env bd of
             Inl err \<Rightarrow> (s, Some err, [(CreateBooking bd, s)])
           | Inr response_data \<Rightarrow>
               (let s1 = s\<lparr>bookingResult := Some response_data\<rparr>;
                    s2 = s1\<lparr>showModal := False\<rparr>
                in (s2\<lparr>step := Success\<rparr>, None, [(CreateBooking bd, s)]))))"

definition handleBookingConfirm :: "remote \<Rightarrow> string \<Rightarrow> session \<Rightarrow> session \<times> call list" where
  "handleBookingConfirm env meetingType s =
     (let s1 = s\<lparr>isLoading := True\<rparr>;
          s2 = s1\<lparr>error := None\<rparr>;
          (s3, thrown, calls) = handleBookingConfirm_try env meetingType s2;
          s4 = (case thrown of
                  None \<Rightarrow> s3
                | Some err \<Rightarrow> s3\<lparr>error := Some (or_else (err_detail err) ''Booking failed.'')\<rparr>)
      in (s4\<lparr>isLoading := False\<rparr>, calls))"

section \<open>Resetting, and the two inline handlers\<close>

definition handleReset :: "session \<Rightarrow> session" where
  "handleReset s =
     s\<lparr>step := Form, clientData := None, clientId := None, spocs := [],
       selectedSpoc := None, selectedSlot := None, bookingResult := None, error := None\<rparr>"

text \<open>The close button of the error banner (line 106) and \<^verbatim>\<open>onClose\<close> of the modal (line 175).\<close>

definition dismissError :: "session \<Rightarrow> session" where
  "dismissError s = s\<lparr>error := None\<rparr>"

definition closeModal :: "session \<Rightarrow> session" where
  "closeModal s = s\<lparr>showModal := False\<rparr>"

section \<open>Sequences of operations\<close>

text \<open>
  Every handler of the component as an operation. Each operation runs to its end before
  the next one starts. That is an assumption on whoever drives the session: the
  component disables the buttons that start an asynchronous handler while
  \<^verbatim>\<open>isLoading\<close> is set, and nothing else; a handler called while another one is
  waiting for the remote service is outside this model. The remote service may answer
  differently every time, so each step comes with its own \<open>remote\<close>. The operations
  are allowed in every state, which is more than the rendered buttons offer.
\<close>

datatype op =
    SubmitClient form_data
  | SelectSlot string slot
  | ConfirmBooking string
  | Reset
  | DismissError
  | CloseModal

fun exec :: "remote \<Rightarrow> op \<Rightarrow> session \<Rightarrow> session" where
  "exec env (SubmitClient formData) s = fst (handleClientSubmit env formData s)"
| "exec env (SelectSlot spocId slot) s = handleSlotSelection spocId slot s"
| "exec env (ConfirmBooking meetingType) s = fst (handleBookingConfirm env meetingType s)"
| "exec env Reset s = handleReset s"
| "exec env DismissError s = dismissError s"
| "exec env CloseModal s = closeModal s"

fun run :: "(remote \<times> op) list \<Rightarrow> session \<Rightarrow> session" where
  "run [] s = s"
| "run ((env, a) # rest) s = run rest (exec env a s)"

inductive reachable :: "session \<Rightarrow> bool" where
  reachable_initial: "reachable initial"
| reachable_exec: "reachable s \<Longrightarrow> reachable (exec env a s)"

section \<open>Predicates on operations and requests\<close>

fun isSelectSlot :: "op \<Rightarrow> bool" where
  "isSelectSlot (SelectSlot spocId slot) = True"
| "isSelectSlot _ = False"

fun isCreateClient :: "request \<Rightarrow> bool" where
  "isCreateClient (CreateClient formData) = True"
| "isCreateClient _ = False"


section \<open>A concrete session\<close>

text \<open>
  A submission, two SPOCs and a remote service that answers the availability call for
  the first SPOC and fails it for the second. Variants of the service report a slot
  conflict, cannot be reached, reject the listing with a detail message, or answer
  every booking request with a booking of the second SPOC at another time.
  \<open>reviewing\<close> is the session after the submission, \<open>selecting\<close> the session after the
  first slot of the first SPOC has been picked.
\<close>

definition acme :: form_data where
  "acme =
     \<lparr>company_name = ''Acme'', contact_name = [], contact_email = ''a@b.com'',
      contact_phone = [], industry = [], budget_range = ''$50K - $250K'',
      decision_timeline = ''This Month'', solution_type = ''Automation''\<rparr>"

definition slot1 :: slot where
  "slot1 = \<lparr>slot.slot_id = ''slot#1'', slot.start_time = ''2026-01-05T10:00:00Z''\<rparr>"

definition slot2 :: slot where
  "slot2 = \<lparr>slot.slot_id = ''slot#2'', slot.start_time = ''2026-01-06T15:30:00Z''\<rparr>"

definition SPOC1 :: spoc where
  "SPOC1 =
     \<lparr>spoc.spoc_id = ''SPOC1'', name = ''Ada'', expertise = ''Automation'',
      specialization = None, email = ''ada@example.com'', available_slots = []\<rparr>"

definition SPOC2 :: spoc where
  "SPOC2 =
     \<lparr>spoc.spoc_id = ''SPOC2'', name = ''Grace'', expertise = ''Automation'',
      specialization = Some ''Robotics'', email = ''grace@example.com'',
      available_slots = []\<rparr>"

definition booked :: booking_result where
  "booked =
     \<lparr>booking_id = ''B-1'', spoc_name = ''Ada'', start_time = ''2026-01-05T10:00:00Z'',
      meeting_link = None\<rparr>"

definition service :: remote where
  "service =
     \<lparr>clientApi_create = (\<lambda>_. Inr \<lparr>client_response.client_id = ''C-1''\<rparr>),
      spocApi_getAll = (\<lambda>_. Inr [SPOC1, SPOC2]),
      spocApi_getAvailability =
        (\<lambda>spocId _ _. if spocId = ''SPOC1'' then Inr (SPOC1\<lparr>available_slots := [slot1, slot2]\<rparr>)
                       else Inl (AxiosError None)),
      bookingApi_create = (\<lambda>_. Inr booked),
      Date_now = (\<lambda>k. 1767600000000 + int k)\<rparr>"

definition slotConflict :: exn where
  "slotConflict = AxiosError (Some \<lparr>data = Some \<lparr>detail = Some ''Slot is no longer available''\<rparr>\<rparr>)"

definition service_conflict :: remote where
  "service_conflict = service\<lparr>bookingApi_create := (\<lambda>_. Inl slotConflict)\<rparr>"

definition service_down :: remote where
  "service_down = service\<lparr>clientApi_create := (\<lambda>_. Inl (AxiosError None))\<rparr>"

definition service_rejects :: remote where
  "service_rejects =
     service\<lparr>spocApi_getAll :=
       (\<lambda>_. Inl (AxiosError (Some \<lparr>data = Some \<lparr>detail = Some ''Unknown solution type''\<rparr>\<rparr>)))\<rparr>"

definition misbooked :: booking_result where
  "misbooked =
     \<lparr>booking_id = ''B-2'', spoc_name = ''Grace'', start_time = ''2026-01-06T15:30:00Z'',
      meeting_link = None\<rparr>"

definition service_misbooks :: remote where
  "service_misbooks = service\<lparr>bookingApi_create := (\<lambda>_. Inr misbooked)\<rparr>"

definition reviewing :: session where
  "reviewing = fst (handleClientSubmit service acme initial)"

definition selecting :: session where
  "selecting = handleSlotSelection ''SPOC1'' slot1 reviewing"


section \<open>What the handlers compute, case by case\<close>

lemma handleClientSubmit_create_fails:
  assumes "clientApi_create env formData = Inl err"
  shows "handleClientSubmit env formData s =
           (s\<lparr>isLoading := False,
              error := Some (or_else (err_detail err) ''Failed to process request.'')\<rparr>,
            [(CreateClient formData, s\<lparr>isLoading := True, error := None\<rparr>)])"
  using assms by (simp add: handleClientSubmit_def handleClientSubmit_try_def)

lemma handleClientSubmit_listing_fails:
  assumes "clientApi_create env formData = Inr clientResponse"
      and "spocApi_getAll env (solution_type formData) = Inl err"
  shows "handleClientSubmit env formData s =
           (s\<lparr>isLoading := False,
              error := Some (or_else (err_detail err) ''Failed to process request.''),
              clientId := Some (client_response.client_id clientResponse),
              clientData := Some formData\<rparr>,
            [(CreateClient formData, s\<lparr>isLoading := True, error := None\<rparr>),
             (GetAll (solution_type formData),
              s\<lparr>isLoading := True, error := None,
                clientId := Some (client_response.client_id clientResponse),
                clientData := Some formData\<rparr>)])"
  using assms by (simp add: handleClientSubmit_def handleClientSubmit_try_def Let_def)

lemma handleClientSubmit_succeeds:
  assumes "clientApi_create env formData = Inr clientResponse"
      and "spocApi_getAll env (solution_type formData) = Inr spocsResponse"
  shows "handleClientSubmit env formData s =
           (s\<lparr>isLoading := False, error := None,
              clientId := Some (client_response.client_id clientResponse),
              clientData := Some formData,
              spocs := spocsWithAvailability env spocsResponse,
              step := Spocs\<rparr>,
            [(CreateClient formData, s\<lparr>isLoading := True, error := None\<rparr>),
             (GetAll (solution_type formData),
              s\<lparr>isLoading := True, error := None,
                clientId := Some (client_response.client_id clientResponse),
                clientData := Some formData\<rparr>)]
            @ map (\<lambda>r. (r, s\<lparr>isLoading := True, error := None,
                clientId := Some (client_response.client_id clientResponse),
                clientData := Some formData\<rparr>)) (availabilityRequests env spocsResponse))"
  using assms by (simp add: handleClientSubmit_def handleClientSubmit_try_def Let_def)

lemma bookingData_loading [simp]:
  "bookingData (s\<lparr>isLoading := b, error := e\<rparr>) meetingType = bookingData s meetingType"
  by (simp add: bookingData_def split: option.splits)

lemma handleBookingConfirm_not_selected:
  assumes "bookingData s meetingType = Inl err"
  shows "handleBookingConfirm env meetingType s =
           (s\<lparr>isLoading := False, error := Some (or_else (err_detail err) ''Booking failed.'')\<rparr>, [])"
  using assms by (simp add: handleBookingConfirm_def handleBookingConfirm_try_def bookingData_def split: option.splits)

lemma handleBookingConfirm_call_fails:
  assumes "bookingData s meetingType = Inr bd"
      and "bookingApi_create env bd = Inl err"
  shows "handleBookingConfirm env meetingType s =
           (s\<lparr>isLoading := False, error := Some (or_else (err_detail err) ''Booking failed.'')\<rparr>,
            [(CreateBooking bd, s\<lparr>isLoading := True, error := None\<rparr>)])"
  using assms by (simp add: handleBookingConfirm_def handleBookingConfirm_try_def)

lemma handleBookingConfirm_succeeds:
  assumes "bookingData s meetingType = Inr bd"
      and "bookingApi_create env bd = Inr response_data"
  shows "handleBookingConfirm env meetingType s =
           (s\<lparr>isLoading := False, error := None, bookingResult := Some response_data,
              showModal := False, step := Success\<rparr>,
            [(CreateBooking bd, s\<lparr>isLoading := True, error := None\<rparr>)])"
  using assms by (simp add: handleBookingConfirm_def handleBookingConfirm_try_def Let_def)


text \<open>What the handlers leave alone.\<close>

lemma handleClientSubmit_frame:
  "selectedSpoc (fst (handleClientSubmit env formData s)) = selectedSpoc s"
  "selectedSlot (fst (handleClientSubmit env formData s)) = selectedSlot s"
  "showModal (fst (handleClientSubmit env formData s)) = showModal s"
  "bookingResult (fst (handleClientSubmit env formData s)) = bookingResult s"
  by (simp_all add: handleClientSubmit_def handleClientSubmit_try_def Let_def
        split: sum.splits)

lemma handleClientSubmit_stays:
  "step (fst (handleClientSubmit env formData s)) \<noteq> Spocs \<Longrightarrow>
     step (fst (handleClientSubmit env formData s)) = step s \<and>
     spocs (fst (handleClientSubmit env formData s)) = spocs s"
  by (simp add: handleClientSubmit_def handleClientSubmit_try_def Let_def
        split: sum.splits)

lemma handleBookingConfirm_frame:
  "selectedSpoc (fst (handleBookingConfirm env meetingType s)) = selectedSpoc s"
  "selectedSlot (fst (handleBookingConfirm env meetingType s)) = selectedSlot s"
  "spocs (fst (handleBookingConfirm env meetingType s)) = spocs s"
  "clientId (fst (handleBookingConfirm env meetingType s)) = clientId s"
  "clientData (fst (handleBookingConfirm env meetingType s)) = clientData s"
  by (simp_all add: handleBookingConfirm_def handleBookingConfirm_try_def Let_def
        split: sum.splits)

lemma handleBookingConfirm_step:
  "step (fst (handleBookingConfirm env meetingType s)) = step s \<or>
   step (fst (handleBookingConfirm env meetingType s)) = Success"
  by (simp add: handleBookingConfirm_def handleBookingConfirm_try_def Let_def
        split: sum.splits)


text \<open>When the booking request is built, and when it is sent.\<close>

lemma bookingData_no_selection:
  "selectedSpoc s = None \<or> selectedSlot s = None \<Longrightarrow> bookingData s meetingType = Inl TypeError"
  by (auto simp: bookingData_def split: option.splits)

lemma bookingData_Inr:
  "bookingData s meetingType = Inr bd \<Longrightarrow>
     \<exists>sp sl. selectedSpoc s = Some sp \<and> selectedSlot s = Some sl \<and>
       bd = \<lparr>client_id = clientId s, spoc_id = spoc.spoc_id sp,
             slot_id = slot.slot_id sl, meeting_type = meetingType\<rparr>"
  by (auto simp: bookingData_def split: option.splits)

lemma booking_call_issued:
  "(CreateBooking bd, st) \<in> set (snd (handleBookingConfirm env meetingType s)) \<longleftrightarrow>
     bookingData s meetingType = Inr bd \<and> st = s\<lparr>isLoading := True, error := None\<rparr>"
  by (auto simp: handleBookingConfirm_def handleBookingConfirm_try_def Let_def
        split: sum.splits)


text \<open>Every call is issued with the error field cleared; an error shown afterwards comes from a failure of the same run.\<close>

lemma clientSubmit_calls_clean:
  "c \<in> set (snd (handleClientSubmit env formData s)) \<Longrightarrow> error (snd c) = None"
  by (auto simp: handleClientSubmit_def handleClientSubmit_try_def Let_def split: sum.splits)

lemma bookingConfirm_calls_clean:
  "c \<in> set (snd (handleBookingConfirm env meetingType s)) \<Longrightarrow> error (snd c) = None"
  by (auto simp: handleBookingConfirm_def handleBookingConfirm_try_def Let_def split: sum.splits)

lemma clientSubmit_error_origin:
  assumes "error (fst (handleClientSubmit env formData s)) = Some msg"
  shows "\<exists>err. (clientApi_create env formData = Inl err \<or>
                (\<exists>clientResponse. clientApi_create env formData = Inr clientResponse \<and>
                   spocApi_getAll env (solution_type formData) = Inl err)) \<and>
               msg = or_else (err_detail err) ''Failed to process request.''"
proof (cases "clientApi_create env formData")
  case (Inl err)
  with assms show ?thesis
    by (auto simp: handleClientSubmit_create_fails)
next
  case (Inr clientResponse)
  note created = this
  show ?thesis
  proof (cases "spocApi_getAll env (solution_type formData)")
    case (Inl err)
    with assms created show ?thesis
      by (auto simp: handleClientSubmit_listing_fails)
  next
    case (Inr cands)
    with assms created show ?thesis
      by (simp add: handleClientSubmit_succeeds)
  qed
qed

lemma bookingConfirm_error_origin:
  assumes "error (fst (handleBookingConfirm env meetingType s)) = Some msg"
  shows "\<exists>err. (bookingData s meetingType = Inl err \<or>
                (\<exists>bd. bookingData s meetingType = Inr bd \<and> bookingApi_create env bd = Inl err)) \<and>
               msg = or_else (err_detail err) ''Booking failed.''"
proof (cases "bookingData s meetingType")
  case (Inl err)
  with assms show ?thesis
    by (auto simp: handleBookingConfirm_not_selected)
next
  case (Inr bd)
  note built = this
  show ?thesis
  proof (cases "bookingApi_create env bd")
    case (Inl err)
    with assms built show ?thesis
      by (auto simp: handleBookingConfirm_call_fails)
  next
    case (Inr response_data)
    with assms built show ?thesis
      by (simp add: handleBookingConfirm_succeeds)
  qed
qed


subsection \<open>The aggregated list\<close>

lemma length_spocsWithAvailability:
  "length (spocsWithAvailability env cands) = length cands"
  by (simp add: spocsWithAvailability_def)

lemma nth_spocsWithAvailability:
  "i < length cands \<Longrightarrow>
     spocsWithAvailability env cands ! i = withAvailability env (cands ! i) i"
  by (simp add: spocsWithAvailability_def nth_enumerate_eq)

lemma filter_le_filter_map:
  "(\<And>x. x \<in> set xs \<Longrightarrow> P x \<Longrightarrow> Q (f x)) \<Longrightarrow>
     length (filter P xs) \<le> length (filter Q (map f xs))"
  by (induction xs) auto

lemma withAvailability_failed:
  "isl (availabilityResponse env spoc i) \<Longrightarrow>
     withAvailability env spoc i = spoc\<lparr>available_slots := []\<rparr>"
  by (cases "availabilityResponse env spoc i") (simp_all add: withAvailability_def)

lemma availabilityRequests_not_create:
  "filter isCreateClient (availabilityRequests env cands) = []"
  by (auto simp: filter_empty_conv availabilityRequests_def availabilityRequest_def)


subsection \<open>Sequences of operations\<close>

text \<open>
  While the form is shown, the SPOC list is empty and no SPOC is selected: the list and
  the step are set together, and a selection made on an empty list finds nothing.
\<close>

lemma reachable_form:
  "reachable s \<Longrightarrow> step s = Form \<Longrightarrow> spocs s = [] \<and> selectedSpoc s = None"
proof (induction rule: reachable.induct)
  case reachable_initial
  show ?case by (simp add: initial_def)
next
  case (reachable_exec s env a)
  show ?case
  proof (cases a)
    case (SubmitClient formData)
    with reachable_exec show ?thesis
      using handleClientSubmit_stays [of env formData s]
      by (simp add: handleClientSubmit_frame)
  next
    case (SelectSlot spocId slot)
    with reachable_exec show ?thesis
      by (simp add: handleSlotSelection_def Let_def)
  next
    case (ConfirmBooking meetingType)
    with reachable_exec show ?thesis
      using handleBookingConfirm_step [of env meetingType s]
      by (auto simp: handleBookingConfirm_frame)
  next
    case Reset
    then show ?thesis by (simp add: handleReset_def)
  next
    case DismissError
    with reachable_exec show ?thesis by (simp add: dismissError_def)
  next
    case CloseModal
    with reachable_exec show ?thesis by (simp add: closeModal_def)
  qed
qed


text \<open>Only \<^verbatim>\<open>handleBookingConfirm\<close> sets the step to \<open>Success\<close>, and only after the booking call has resolved.\<close>

lemma exec_enters_success:
  assumes "step s \<noteq> Success" and "step (exec env a s) = Success"
  shows "\<exists>meetingType bd response_data.
           a = ConfirmBooking meetingType \<and> bookingData s meetingType = Inr bd \<and>
           bookingApi_create env bd = Inr response_data \<and>
           bookingResult (exec env a s) = Some response_data"
proof (cases a)
  case (SubmitClient formData)
  with assms show ?thesis
    by (simp add: handleClientSubmit_def handleClientSubmit_try_def Let_def split: sum.splits)
next
  case (SelectSlot spocId slot)
  with assms show ?thesis by (simp add: handleSlotSelection_def Let_def)
next
  case (ConfirmBooking meetingType)
  show ?thesis
  proof (cases "bookingData s meetingType")
    case (Inl err)
    with assms ConfirmBooking show ?thesis
      by (simp add: handleBookingConfirm_not_selected)
  next
    case (Inr bd)
    show ?thesis
    proof (cases "bookingApi_create env bd")
      case (Inl err)
      with assms ConfirmBooking \<open>bookingData s meetingType = Inr bd\<close> show ?thesis
        by (simp add: handleBookingConfirm_call_fails)
    next
      case (Inr response_data)
      with ConfirmBooking \<open>bookingData s meetingType = Inr bd\<close> show ?thesis
        by (simp add: handleBookingConfirm_succeeds)
    qed
  qed
next
  case Reset
  with assms show ?thesis by (simp add: handleReset_def)
next
  case DismissError
  with assms show ?thesis by (simp add: dismissError_def)
next
  case CloseModal
  with assms show ?thesis by (simp add: closeModal_def)
qed


text \<open>Apart from a slot selection, an operation keeps the selection or clears it.\<close>

lemma exec_keeps_selection:
  "\<not> isSelectSlot a \<Longrightarrow>
     selectedSpoc (exec env a s) = selectedSpoc s \<and> selectedSlot (exec env a s) = selectedSlot s \<or>
     selectedSpoc (exec env a s) = None \<and> selectedSlot (exec env a s) = None"
  by (cases a)
     (simp_all add: handleClientSubmit_frame handleBookingConfirm_frame handleReset_def
        dismissError_def closeModal_def)

lemma run_without_selection:
  assumes "\<forall>x\<in>set ops. \<not> isSelectSlot (snd x)"
      and "selectedSpoc s = None" and "selectedSlot s = None"
  shows "selectedSpoc (run ops s) = None \<and> selectedSlot (run ops s) = None"
  using assms
proof (induction ops arbitrary: s)
  case Nil
  then show ?case by simp
next
  case (Cons x ops)
  obtain env a where x: "x = (env, a)" by (cases x)
  with Cons.prems have "\<not> isSelectSlot a" by simp
  from exec_keeps_selection [OF this, of env s] Cons.prems(2,3)
  have "selectedSpoc (exec env a s) = None" "selectedSlot (exec env a s) = None"
    by auto
  with Cons.IH [of "exec env a s"] Cons.prems(1) x show ?case by simp
qed

lemma run_keeps_selection:
  assumes "\<forall>x\<in>set ops. \<not> isSelectSlot (snd x)"
      and "selectedSpoc (run ops s) = Some sp" and "selectedSlot (run ops s) = Some sl"
  shows "selectedSpoc s = Some sp \<and> selectedSlot s = Some sl"
  using assms
proof (induction ops arbitrary: s)
  case Nil
  then show ?case by simp
next
  case (Cons x ops)
  obtain env a where x: "x = (env, a)" by (cases x)
  with Cons.prems have a: "\<not> isSelectSlot a" by simp
  from Cons.IH [of "exec env a s"] Cons.prems x
  have "selectedSpoc (exec env a s) = Some sp \<and> selectedSlot (exec env a s) = Some sl"
    by simp
  with exec_keeps_selection [OF a, of env s] show ?case by auto
qed

lemma handleSlotSelection_selected:
  assumes "selectedSpoc (handleSlotSelection spocId slot s) = Some sp"
  shows "spoc.spoc_id sp = spocId \<and> sp \<in> set (spocs s)"
proof -
  from assms have "find (\<lambda>c. spoc.spoc_id c = spocId) (spocs s) = Some sp"
    by (simp add: handleSlotSelection_def Let_def)
  then show ?thesis
    by (auto simp: find_Some_iff)
qed


subsection \<open>The concrete session, evaluated\<close>

lemma service_availability:
  "availabilityResponse service SPOC1 0 = Inr (SPOC1\<lparr>available_slots := [slot1, slot2]\<rparr>)"
  "availabilityResponse service SPOC2 (Suc 0) = Inl (AxiosError None)"
  by (simp_all add: availabilityResponse_def service_def SPOC1_def SPOC2_def)

lemma service_calls:
  "clientApi_create service acme = Inr \<lparr>client_response.client_id = ''C-1''\<rparr>"
  "spocApi_getAll service (solution_type acme) = Inr [SPOC1, SPOC2]"
  "clientApi_create service_conflict = clientApi_create service"
  "spocApi_getAll service_conflict = spocApi_getAll service"
  "bookingApi_create service bd = Inr booked"
  "bookingApi_create service_conflict bd = Inl slotConflict"
  "clientApi_create service_down acme = Inl (AxiosError None)"
  by (simp_all add: service_def service_conflict_def service_down_def)

lemma service_rejects_calls:
  "clientApi_create service_rejects acme = Inr \<lparr>client_response.client_id = ''C-1''\<rparr>"
  "spocApi_getAll service_rejects (solution_type acme)
     = Inl (AxiosError (Some \<lparr>data = Some \<lparr>detail = Some ''Unknown solution type''\<rparr>\<rparr>))"
  "err_detail (AxiosError (Some \<lparr>data = Some \<lparr>detail = Some ''Unknown solution type''\<rparr>\<rparr>))
     = Some ''Unknown solution type''"
  by (simp_all add: service_rejects_def service_def err_detail_def)

lemma spocsWithAvailability_service:
  "spocsWithAvailability service [SPOC1, SPOC2] =
     [SPOC1\<lparr>available_slots := [slot1, slot2]\<rparr>, SPOC2\<lparr>available_slots := []\<rparr>]"
  by (simp add: spocsWithAvailability_def withAvailability_def service_availability)

lemma reviewing_eq:
  "reviewing =
     \<lparr>step = Spocs, clientData = Some acme, clientId = Some ''C-1'',
      spocs = [SPOC1\<lparr>available_slots := [slot1, slot2]\<rparr>, SPOC2\<lparr>available_slots := []\<rparr>],
      selectedSpoc = None, selectedSlot = None, showModal = False, bookingResult = None,
      isLoading = False, error = None\<rparr>"
  by (simp add: reviewing_def handleClientSubmit_succeeds [OF service_calls(1,2)]
        spocsWithAvailability_service initial_def)

lemma selecting_eq:
  "selecting =
     \<lparr>step = Spocs, clientData = Some acme, clientId = Some ''C-1'',
      spocs = [SPOC1\<lparr>available_slots := [slot1, slot2]\<rparr>, SPOC2\<lparr>available_slots := []\<rparr>],
      selectedSpoc = Some (SPOC1\<lparr>available_slots := [slot1, slot2]\<rparr>),
      selectedSlot = Some slot1, showModal = True, bookingResult = None,
      isLoading = False, error = None\<rparr>"
  by (simp add: selecting_def reviewing_eq handleSlotSelection_def SPOC1_def)

lemma selecting_again:
  "handleSlotSelection ''SPOC1'' slot1 reviewing = selecting"
  by (simp add: selecting_def)

lemma bookingData_selecting:
  "bookingData selecting meetingType =
     Inr \<lparr>client_id = Some ''C-1'', spoc_id = ''SPOC1'', slot_id = ''slot#1'',
          meeting_type = meetingType\<rparr>"
  by (simp add: bookingData_def selecting_eq SPOC1_def slot1_def)

lemma err_detail_simps:
  "err_detail TypeError = None"
  "err_detail (AxiosError None) = None"
  "err_detail slotConflict = Some ''Slot is no longer available''"
  by (simp_all add: err_detail_def slotConflict_def)

lemma exec_failed_confirm:
  "exec service_conflict (ConfirmBooking meetingType) selecting
     = selecting\<lparr>isLoading := False, error := Some ''Slot is no longer available''\<rparr>"
  by (simp add: handleBookingConfirm_call_fails [OF bookingData_selecting service_calls(6)]
        err_detail_simps or_else_def)

lemma stale_error:
  "error (exec service_conflict (ConfirmBooking ''Technical Demo'') selecting)
     = Some ''Slot is no longer available''"
  by (simp only: exec_failed_confirm) simp


section \<open>The availability aggregation\<close>

text \<open>
  Claim C1. When the client has been created and the listing call has returned \<open>N\<close>
  candidates, the SPOC list stored by \<^verbatim>\<open>handleClientSubmit\<close> has \<open>N\<close> entries. The entry
  at position \<open>i\<close> is the answer of the availability call issued for candidate \<open>i\<close>,
  or, when that call failed, candidate \<open>i\<close> itself with an empty slot sequence. So the
  entries stand in the order of the candidates, and when exactly \<open>k\<close> availability calls
  fail, those \<open>k\<close> candidates appear with no slots (at least \<open>k\<close> entries have none).
\<close>

theorem aggregation_keeps_every_candidate:
  assumes "clientApi_create env formData = Inr clientResponse"
      and "spocApi_getAll env (solution_type formData) = Inr cands"
      and "length (filter (\<lambda>(i, spoc). isl (availabilityResponse env spoc i)) (enumerate 0 cands)) = k"
  shows "(let result = spocs (fst (handleClientSubmit env formData s)) in
            length result = length cands \<and>
            (\<forall>i<length cands.
               case availabilityResponse env (cands ! i) i of
                 Inl _ \<Rightarrow> result ! i = (cands ! i)\<lparr>available_slots := []\<rparr>
               | Inr availabilityResponse_data \<Rightarrow> result ! i = availabilityResponse_data) \<and>
            k \<le> length (filter (\<lambda>r. available_slots r = []) result))"
proof -
  have result: "spocs (fst (handleClientSubmit env formData s)) = spocsWithAvailability env cands"
    by (simp add: handleClientSubmit_succeeds [OF assms(1,2)])
  have positions: "\<forall>i<length cands.
      case availabilityResponse env (cands ! i) i of
        Inl _ \<Rightarrow> spocsWithAvailability env cands ! i = (cands ! i)\<lparr>available_slots := []\<rparr>
      | Inr d \<Rightarrow> spocsWithAvailability env cands ! i = d"
    by (simp add: nth_spocsWithAvailability withAvailability_def split: sum.splits)
  have "length (filter (\<lambda>(i, spoc). isl (availabilityResponse env spoc i)) (enumerate 0 cands))
      \<le> length (filter (\<lambda>r. available_slots r = [])
           (map (\<lambda>(i, spoc). withAvailability env spoc i) (enumerate 0 cands)))"
    by (rule filter_le_filter_map) (auto simp: withAvailability_failed)
  then have count: "k \<le> length (filter (\<lambda>r. available_slots r = []) (spocsWithAvailability env cands))"
    using assms(3) by (simp add: spocsWithAvailability_def)
  show ?thesis
    unfolding Let_def result
    using positions count by (simp add: length_spocsWithAvailability)
qed

theorem aggregation_keeps_every_candidate_witness:
  "clientApi_create service acme = Inr \<lparr>client_response.client_id = ''C-1''\<rparr> \<and>
   spocApi_getAll service (solution_type acme) = Inr [SPOC1, SPOC2] \<and>
   length (filter (\<lambda>(i, spoc). isl (availabilityResponse service spoc i))
     (enumerate 0 [SPOC1, SPOC2])) = 1 \<and>
   length (spocs (fst (handleClientSubmit service acme initial))) = 2 \<and>
   spocs (fst (handleClientSubmit service acme initial)) ! 0 = SPOC1\<lparr>available_slots := [slot1, slot2]\<rparr> \<and>
   spocs (fst (handleClientSubmit service acme initial)) ! 1 = SPOC2\<lparr>available_slots := []\<rparr> \<and>
   1 \<le> length (filter (\<lambda>r. available_slots r = [])
          (spocs (fst (handleClientSubmit service acme initial))))"
proof -
  have create: "clientApi_create service acme = Inr \<lparr>client_response.client_id = ''C-1''\<rparr>"
    by (simp add: service_def)
  have listing: "spocApi_getAll service (solution_type acme) = Inr [SPOC1, SPOC2]"
    by (simp add: service_def)
  have failed: "length (filter (\<lambda>(i, spoc). isl (availabilityResponse service spoc i))
      (enumerate 0 [SPOC1, SPOC2])) = 1"
    by (simp add: service_availability)
  note agg = aggregation_keeps_every_candidate [OF create listing failed, of initial, unfolded Let_def]
  from agg have len: "length (spocs (fst (handleClientSubmit service acme initial))) = 2"
    by simp
  from agg [THEN conjunct2, THEN conjunct1, rule_format, of 0]
  have first: "spocs (fst (handleClientSubmit service acme initial)) ! 0
      = SPOC1\<lparr>available_slots := [slot1, slot2]\<rparr>"
    by (simp add: service_availability)
  from agg [THEN conjunct2, THEN conjunct1, rule_format, of 1]
  have second: "spocs (fst (handleClientSubmit service acme initial)) ! 1
      = SPOC2\<lparr>available_slots := []\<rparr>"
    by (simp add: service_availability)
  from agg have count: "1 \<le> length (filter (\<lambda>r. available_slots r = [])
      (spocs (fst (handleClientSubmit service acme initial))))"
    by simp
  show ?thesis
    using create listing failed len first second count by simp
qed


section \<open>Submitting a client\<close>

text \<open>
  Claim C2. For every submission (the handler does not look at its validity), when the
  client creation and the listing call both succeed, \<^verbatim>\<open>handleClientSubmit\<close> leaves the
  session in the step \<open>Spocs\<close>, whatever the step before and so from \<open>Form\<close>; the client
  id cell holds the one id the remote service returned, the submission and the
  aggregated list are stored, no error is shown, and exactly one client creation
  request has been sent.
\<close>

theorem submitClient_success_enters_reviewing:
  assumes "clientApi_create env formData = Inr clientResponse"
      and "spocApi_getAll env (solution_type formData) = Inr cands"
  shows "step (fst (handleClientSubmit env formData s)) = Spocs \<and>
         clientId (fst (handleClientSubmit env formData s))
           = Some (client_response.client_id clientResponse) \<and>
         clientData (fst (handleClientSubmit env formData s)) = Some formData \<and>
         spocs (fst (handleClientSubmit env formData s)) = spocsWithAvailability env cands \<and>
         error (fst (handleClientSubmit env formData s)) = None \<and>
         filter isCreateClient (map fst (snd (handleClientSubmit env formData s)))
           = [CreateClient formData]"
  by (simp add: handleClientSubmit_succeeds [OF assms] o_def availabilityRequests_not_create)

theorem submitClient_success_enters_reviewing_witness:
  "clientApi_create service acme = Inr \<lparr>client_response.client_id = ''C-1''\<rparr> \<and>
   spocApi_getAll service (solution_type acme) = Inr [SPOC1, SPOC2] \<and>
   step initial = Form \<and>
   step (fst (handleClientSubmit service acme initial)) = Spocs \<and>
   clientId (fst (handleClientSubmit service acme initial)) = Some ''C-1'' \<and>
   clientData (fst (handleClientSubmit service acme initial)) = Some acme"
  using submitClient_success_enters_reviewing [OF service_calls(1,2), of initial]
  by (simp add: service_calls initial_def)


text \<open>
  Claim C3. When the client creation fails, or the listing call fails after it, the step
  is the one before the call (so a session in \<open>Form\<close> remains in \<open>Form\<close>), the stored
  SPOC list is untouched (empty in every reachable \<open>Form\<close> session), and the error
  field holds the detail message of the failure when the remote service supplied a
  non-empty one and the generic message otherwise.
\<close>

theorem submitClient_failure_stays_in_form:
  assumes "clientApi_create env formData = Inl err \<or>
           (\<exists>clientResponse. clientApi_create env formData = Inr clientResponse \<and>
              spocApi_getAll env (solution_type formData) = Inl err)"
  shows "step (fst (handleClientSubmit env formData s)) = step s \<and>
         spocs (fst (handleClientSubmit env formData s)) = spocs s \<and>
         (reachable s \<and> step s = Form \<longrightarrow> spocs (fst (handleClientSubmit env formData s)) = []) \<and>
         error (fst (handleClientSubmit env formData s))
           = Some (or_else (err_detail err) ''Failed to process request.'') \<and>
         (\<forall>d. err_detail err = Some d \<and> d \<noteq> [] \<longrightarrow>
            error (fst (handleClientSubmit env formData s)) = Some d) \<and>
         (err_detail err = None \<or> err_detail err = Some [] \<longrightarrow>
            error (fst (handleClientSubmit env formData s)) = Some ''Failed to process request.'')"
  using assms
proof
  assume "clientApi_create env formData = Inl err"
  then show ?thesis
    using reachable_form [of s]
    by (auto simp: handleClientSubmit_create_fails or_else_def)
next
  assume "\<exists>clientResponse. clientApi_create env formData = Inr clientResponse \<and>
            spocApi_getAll env (solution_type formData) = Inl err"
  then obtain clientResponse where
    "clientApi_create env formData = Inr clientResponse"
    "spocApi_getAll env (solution_type formData) = Inl err"
    by blast
  then show ?thesis
    using reachable_form [of s]
    by (auto simp: handleClientSubmit_listing_fails or_else_def)
qed

theorem submitClient_failure_stays_in_form_witness:
  "clientApi_create service_down acme = Inl (AxiosError None) \<and>
   clientApi_create service_rejects acme = Inr \<lparr>client_response.client_id = ''C-1''\<rparr> \<and>
   spocApi_getAll service_rejects (solution_type acme)
     = Inl (AxiosError (Some \<lparr>data = Some \<lparr>detail = Some ''Unknown solution type''\<rparr>\<rparr>)) \<and>
   reachable initial \<and> step initial = Form \<and>
   step (fst (handleClientSubmit service_down acme initial)) = Form \<and>
   spocs (fst (handleClientSubmit service_down acme initial)) = [] \<and>
   error (fst (handleClientSubmit service_down acme initial))
     = Some ''Failed to process request.'' \<and>
   step (fst (handleClientSubmit service_rejects acme initial)) = Form \<and>
   spocs (fst (handleClientSubmit service_rejects acme initial)) = [] \<and>
   error (fst (handleClientSubmit service_rejects acme initial))
     = Some ''Unknown solution type''"
proof -
  have down: "clientApi_create service_down acme = Inl (AxiosError None)"
    by (simp add: service_calls)
  have start: "reachable initial" "step initial = Form" "spocs initial = []"
    by (rule reachable_initial) (simp_all add: initial_def)
  from submitClient_failure_stays_in_form [of service_down acme "AxiosError None" initial]
    down start
  have unreachable: "step (fst (handleClientSubmit service_down acme initial)) = Form"
    "spocs (fst (handleClientSubmit service_down acme initial)) = []"
    "error (fst (handleClientSubmit service_down acme initial)) = Some ''Failed to process request.''"
    by (simp_all add: err_detail_simps or_else_def)
  from submitClient_failure_stays_in_form
    [of service_rejects acme
        "AxiosError (Some \<lparr>data = Some \<lparr>detail = Some ''Unknown solution type''\<rparr>\<rparr>)" initial]
    service_rejects_calls start
  have rejected: "step (fst (handleClientSubmit service_rejects acme initial)) = Form"
    "spocs (fst (handleClientSubmit service_rejects acme initial)) = []"
    "error (fst (handleClientSubmit service_rejects acme initial)) = Some ''Unknown solution type''"
    by (simp_all add: or_else_def)
  show ?thesis
    using down service_rejects_calls(1,2) start(1,2) unreachable rejected by simp
qed


section \<open>Confirming a booking\<close>

text \<open>
  Claim C4. When \<^verbatim>\<open>handleBookingConfirm\<close> has sent the booking request and the remote
  service fails it, the step is the one before the call (\<open>Spocs\<close> for a session under
  review), the selected SPOC and slot are unchanged, no booking result is stored, and
  the error field holds the detail message of the failure, or the generic message when
  there is none.
\<close>

theorem confirmBooking_failure_keeps_selection:
  assumes "(CreateBooking bd, st) \<in> set (snd (handleBookingConfirm env meetingType s))"
      and "bookingApi_create env bd = Inl err"
  shows "step (fst (handleBookingConfirm env meetingType s)) = step s \<and>
         selectedSpoc (fst (handleBookingConfirm env meetingType s)) = selectedSpoc s \<and>
         selectedSlot (fst (handleBookingConfirm env meetingType s)) = selectedSlot s \<and>
         bookingResult (fst (handleBookingConfirm env meetingType s)) = bookingResult s \<and>
         error (fst (handleBookingConfirm env meetingType s))
           = Some (or_else (err_detail err) ''Booking failed.'')"
proof -
  from assms(1) have "bookingData s meetingType = Inr bd"
    by (simp add: booking_call_issued)
  then show ?thesis
    by (simp add: handleBookingConfirm_call_fails [OF _ assms(2)])
qed

theorem confirmBooking_failure_keeps_selection_witness:
  "(CreateBooking \<lparr>client_id = Some ''C-1'', spoc_id = ''SPOC1'', slot_id = ''slot#1'',
        meeting_type = ''Technical Demo''\<rparr>, selecting\<lparr>isLoading := True, error := None\<rparr>)
     \<in> set (snd (handleBookingConfirm service_conflict ''Technical Demo'' selecting)) \<and>
   bookingApi_create service_conflict
     \<lparr>client_id = Some ''C-1'', spoc_id = ''SPOC1'', slot_id = ''slot#1'',
      meeting_type = ''Technical Demo''\<rparr> = Inl slotConflict \<and>
   step (fst (handleBookingConfirm service_conflict ''Technical Demo'' selecting)) = Spocs \<and>
   selectedSpoc (fst (handleBookingConfirm service_conflict ''Technical Demo'' selecting))
     = Some (SPOC1\<lparr>available_slots := [slot1, slot2]\<rparr>) \<and>
   selectedSlot (fst (handleBookingConfirm service_conflict ''Technical Demo'' selecting))
     = Some slot1 \<and>
   error (fst (handleBookingConfirm service_conflict ''Technical Demo'' selecting))
     = Some ''Slot is no longer available''"
proof -
  have issued: "(CreateBooking \<lparr>client_id = Some ''C-1'', spoc_id = ''SPOC1'',
        slot_id = ''slot#1'', meeting_type = ''Technical Demo''\<rparr>,
      selecting\<lparr>isLoading := True, error := None\<rparr>)
     \<in> set (snd (handleBookingConfirm service_conflict ''Technical Demo'' selecting))"
    by (simp add: booking_call_issued bookingData_selecting)
  have failed: "bookingApi_create service_conflict
     \<lparr>client_id = Some ''C-1'', spoc_id = ''SPOC1'', slot_id = ''slot#1'',
      meeting_type = ''Technical Demo''\<rparr> = Inl slotConflict"
    by (simp add: service_calls)
  from confirmBooking_failure_keeps_selection [OF issued failed]
  show ?thesis
    using issued failed by (simp add: err_detail_simps or_else_def) (simp add: selecting_eq)
qed


text \<open>
  Claim C5. The step becomes \<open>Success\<close> only through \<^verbatim>\<open>handleBookingConfirm\<close> whose
  booking request was sent and answered with a result, which is then the stored booking
  result. From a reachable session in \<open>Form\<close> no operation leads to \<open>Success\<close>, and
  a confirmation started there sends no booking request (no SPOC is selected), so no
  booking call is ever in flight from \<open>Form\<close>. The component has no step of its own for
  a confirmation in flight; the booking call being issued stands for it.
\<close>

theorem booked_only_through_confirmation:
  "(step s \<noteq> Success \<and> step (exec env a s) = Success \<longrightarrow>
      (\<exists>meetingType bd st response_data.
         a = ConfirmBooking meetingType \<and>
         (CreateBooking bd, st) \<in> set (snd (handleBookingConfirm env meetingType s)) \<and>
         bookingApi_create env bd = Inr response_data \<and>
         bookingResult (exec env a s) = Some response_data)) \<and>
   (reachable s \<and> step s = Form \<longrightarrow>
      step (exec env a s) \<noteq> Success \<and>
      selectedSpoc s = None \<and>
      (\<forall>meetingType. snd (handleBookingConfirm env meetingType s) = []))"
proof (intro conjI impI)
  assume "step s \<noteq> Success \<and> step (exec env a s) = Success"
  then obtain meetingType bd response_data where
    "a = ConfirmBooking meetingType" "bookingData s meetingType = Inr bd"
    "bookingApi_create env bd = Inr response_data"
    "bookingResult (exec env a s) = Some response_data"
    using exec_enters_success [of s env a] by blast
  then show "\<exists>meetingType bd st response_data.
         a = ConfirmBooking meetingType \<and>
         (CreateBooking bd, st) \<in> set (snd (handleBookingConfirm env meetingType s)) \<and>
         bookingApi_create env bd = Inr response_data \<and>
         bookingResult (exec env a s) = Some response_data"
    by (auto simp: booking_call_issued)
next
  assume form: "reachable s \<and> step s = Form"
  then have none: "selectedSpoc s = None"
    using reachable_form by blast
  then show "selectedSpoc s = None" .
  from none have unselected: "bookingData s meetingType = Inl TypeError" for meetingType
    by (simp add: bookingData_no_selection)
  then show "\<forall>meetingType. snd (handleBookingConfirm env meetingType s) = []"
    by (simp add: handleBookingConfirm_not_selected)
  show "step (exec env a s) \<noteq> Success"
  proof
    assume "step (exec env a s) = Success"
    with form obtain meetingType bd where "bookingData s meetingType = Inr bd"
      using exec_enters_success [of s env a] by auto
    with unselected [of meetingType] show False by simp
  qed
qed

theorem booked_only_through_confirmation_witness:
  "step selecting \<noteq> Success \<and>
   step (exec service (ConfirmBooking ''Technical Demo'') selecting) = Success \<and>
   bookingResult (exec service (ConfirmBooking ''Technical Demo'') selecting) = Some booked \<and>
   reachable initial \<and> step initial = Form \<and>
   step (exec service (ConfirmBooking ''Technical Demo'') initial) \<noteq> Success \<and>
   snd (handleBookingConfirm service ''Technical Demo'' initial) = []"
proof -
  have before: "step selecting \<noteq> Success"
    by (simp add: selecting_eq)
  have after: "step (exec service (ConfirmBooking ''Technical Demo'') selecting) = Success"
    by (simp add: handleBookingConfirm_succeeds [OF bookingData_selecting service_calls(5)])
  from booked_only_through_confirmation
         [of selecting service "ConfirmBooking ''Technical Demo''"] before after
  have result: "bookingResult (exec service (ConfirmBooking ''Technical Demo'') selecting) = Some booked"
    by (auto simp: service_calls)
  have start: "reachable initial" "step initial = Form"
    by (rule reachable_initial) (simp add: initial_def)
  from booked_only_through_confirmation
         [of initial service "ConfirmBooking ''Technical Demo''"] start
  have "step (exec service (ConfirmBooking ''Technical Demo'') initial) \<noteq> Success"
       "snd (handleBookingConfirm service ''Technical Demo'' initial) = []"
    by simp_all
  with before after result start show ?thesis by simp
qed


text \<open>
  Claim C6. After any sequence of operations without a slot selection, starting from the
  initial session, \<^verbatim>\<open>handleBookingConfirm\<close> fails before any request is sent: building
  the request throws, the error field shows the failure with the generic message, and
  the step and the booking result are unchanged.
\<close>

theorem confirmBooking_without_selection_fails:
  assumes "\<forall>x\<in>set ops. \<not> isSelectSlot (snd x)"
  shows "bookingData (run ops initial) meetingType = Inl TypeError \<and>
         snd (handleBookingConfirm env meetingType (run ops initial)) = [] \<and>
         step (fst (handleBookingConfirm env meetingType (run ops initial))) = step (run ops initial) \<and>
         bookingResult (fst (handleBookingConfirm env meetingType (run ops initial)))
           = bookingResult (run ops initial) \<and>
         error (fst (handleBookingConfirm env meetingType (run ops initial)))
           = Some ''Booking failed.''"
proof -
  have "selectedSpoc (run ops initial) = None"
    using run_without_selection [OF assms, of initial] by (simp add: initial_def)
  then have thrown: "bookingData (run ops initial) meetingType = Inl TypeError"
    by (simp add: bookingData_no_selection)
  show ?thesis
    by (simp add: thrown handleBookingConfirm_not_selected [OF thrown] err_detail_simps or_else_def)
qed

theorem confirmBooking_without_selection_fails_witness:
  "\<not> isSelectSlot (SubmitClient acme) \<and>
   step (run [(service, SubmitClient acme)] initial) = Spocs \<and>
   snd (handleBookingConfirm service ''Technical Demo'' (run [(service, SubmitClient acme)] initial)) = [] \<and>
   step (fst (handleBookingConfirm service ''Technical Demo'' (run [(service, SubmitClient acme)] initial))) = Spocs \<and>
   error (fst (handleBookingConfirm service ''Technical Demo'' (run [(service, SubmitClient acme)] initial)))
     = Some ''Booking failed.''"
proof -
  have ops: "\<forall>x\<in>set [(service, SubmitClient acme)]. \<not> isSelectSlot (snd x)"
    by simp
  have state: "step (run [(service, SubmitClient acme)] initial) = Spocs"
    using reviewing_eq by (simp add: reviewing_def)
  from confirmBooking_without_selection_fails [OF ops, of "''Technical Demo''" service] state
  show ?thesis by simp
qed


section \<open>Selecting a slot\<close>

text \<open>
  Claim C7, as stated, fails: \<^verbatim>\<open>handleSlotSelection\<close> does not look at the step. In the
  initial session, which shows the form, it records the slot and sets the modal flag.
\<close>

theorem selectSlot_outside_reviewing_counterexample:
  "step initial = Form \<and> selectedSlot initial = None \<and> showModal initial = False \<and>
   selectedSlot (handleSlotSelection ''SPOC1'' slot1 initial) = Some slot1 \<and>
   showModal (handleSlotSelection ''SPOC1'' slot1 initial) = True \<and>
   handleSlotSelection ''SPOC1'' slot1 initial \<noteq> initial"
  by (simp add: handleSlotSelection_def initial_def)


text \<open>
  Claim C7, amended. In every session, whatever its step, \<^verbatim>\<open>handleSlotSelection\<close> leaves
  the step, the submission, the client id, the SPOC list, the booking result, the error
  and the loading flag unchanged; it records the given slot, sets the modal flag, and
  records as selected SPOC the first listed SPOC with the given id, which is none when
  no such SPOC is listed, as in every reachable session in \<open>Form\<close>.
\<close>

theorem selectSlot_records_selection_only:
  "step (handleSlotSelection spocId slot s) = step s \<and>
   clientData (handleSlotSelection spocId slot s) = clientData s \<and>
   clientId (handleSlotSelection spocId slot s) = clientId s \<and>
   spocs (handleSlotSelection spocId slot s) = spocs s \<and>
   bookingResult (handleSlotSelection spocId slot s) = bookingResult s \<and>
   error (handleSlotSelection spocId slot s) = error s \<and>
   isLoading (handleSlotSelection spocId slot s) = isLoading s \<and>
   selectedSlot (handleSlotSelection spocId slot s) = Some slot \<and>
   showModal (handleSlotSelection spocId slot s) = True \<and>
   selectedSpoc (handleSlotSelection spocId slot s)
     = find (\<lambda>c. spoc.spoc_id c = spocId) (spocs s) \<and>
   (reachable s \<and> step s = Form \<longrightarrow> selectedSpoc (handleSlotSelection spocId slot s) = None)"
  using reachable_form [of s] by (auto simp: handleSlotSelection_def Let_def)

theorem selectSlot_records_selection_only_witness:
  "reachable initial \<and> step initial = Form \<and>
   step (handleSlotSelection ''SPOC1'' slot1 initial) = Form \<and>
   selectedSpoc (handleSlotSelection ''SPOC1'' slot1 initial) = None \<and>
   selectedSlot (handleSlotSelection ''SPOC1'' slot1 initial) = Some slot1 \<and>
   showModal (handleSlotSelection ''SPOC1'' slot1 initial) = True"
proof -
  have start: "reachable initial" "step initial = Form"
    by (rule reachable_initial) (simp add: initial_def)
  note sel = selectSlot_records_selection_only [of "''SPOC1''" slot1 initial]
  from sel start have "step (handleSlotSelection ''SPOC1'' slot1 initial) = Form"
    by simp
  moreover from sel start have "selectedSpoc (handleSlotSelection ''SPOC1'' slot1 initial) = None"
    by blast
  moreover from sel have "selectedSlot (handleSlotSelection ''SPOC1'' slot1 initial) = Some slot1"
    by blast
  moreover from sel have "showModal (handleSlotSelection ''SPOC1'' slot1 initial) = True"
    by blast
  ultimately show ?thesis using start by simp
qed


text \<open>
  Claim C8, as stated, fails in its second half: the booking that results need not
  reflect the selection. \<^verbatim>\<open>handleBookingConfirm\<close> stores \<^verbatim>\<open>response.data\<close> as it comes
  and compares it with nothing. With the first slot of the first SPOC selected and a
  remote service that answers with a booking of the second SPOC at another time, the
  request carries the selected ids, the confirmation succeeds, and the stored booking
  names the other SPOC and the other time. (A booking result, as the component reads
  it, tells its SPOC and slot by the resolved name and the start time.)
\<close>

theorem confirmed_booking_not_reflected_counterexample:
  "selectedSpoc (handleSlotSelection ''SPOC1'' slot1 reviewing)
     = Some (SPOC1\<lparr>available_slots := [slot1, slot2]\<rparr>) \<and>
   selectedSlot (handleSlotSelection ''SPOC1'' slot1 reviewing) = Some slot1 \<and>
   map fst (snd (handleBookingConfirm service_misbooks ''Technical Demo''
                  (handleSlotSelection ''SPOC1'' slot1 reviewing)))
     = [CreateBooking \<lparr>client_id = Some ''C-1'', spoc_id = ''SPOC1'', slot_id = ''slot#1'',
          meeting_type = ''Technical Demo''\<rparr>] \<and>
   step (fst (handleBookingConfirm service_misbooks ''Technical Demo''
                (handleSlotSelection ''SPOC1'' slot1 reviewing))) = Success \<and>
   bookingResult (fst (handleBookingConfirm service_misbooks ''Technical Demo''
                (handleSlotSelection ''SPOC1'' slot1 reviewing))) = Some misbooked \<and>
   spoc.name (SPOC1\<lparr>available_slots := [slot1, slot2]\<rparr>) = ''Ada'' \<and>
   spoc_name misbooked = ''Grace'' \<and>
   spoc_name misbooked \<noteq> spoc.name (SPOC1\<lparr>available_slots := [slot1, slot2]\<rparr>) \<and>
   booking_result.start_time misbooked \<noteq> slot.start_time slot1"
proof -
  have answered: "bookingApi_create service_misbooks bd = Inr misbooked" for bd
    by (simp add: service_misbooks_def)
  note confirmed = handleBookingConfirm_succeeds [OF bookingData_selecting answered]
  have selection: "selectedSpoc selecting = Some (SPOC1\<lparr>available_slots := [slot1, slot2]\<rparr>)"
    "selectedSlot selecting = Some slot1"
    by (simp_all add: selecting_eq)
  have sent: "map fst (snd (handleBookingConfirm service_misbooks ''Technical Demo'' selecting))
      = [CreateBooking \<lparr>client_id = Some ''C-1'', spoc_id = ''SPOC1'', slot_id = ''slot#1'',
           meeting_type = ''Technical Demo''\<rparr>]"
    by (simp add: confirmed)
  have stored: "step (fst (handleBookingConfirm service_misbooks ''Technical Demo'' selecting)) = Success"
    "bookingResult (fst (handleBookingConfirm service_misbooks ''Technical Demo'' selecting))
       = Some misbooked"
    by (simp_all add: confirmed)
  have differs: "spoc.name (SPOC1\<lparr>available_slots := [slot1, slot2]\<rparr>) = ''Ada''"
    "spoc_name misbooked = ''Grace''"
    "spoc_name misbooked \<noteq> spoc.name (SPOC1\<lparr>available_slots := [slot1, slot2]\<rparr>)"
    "booking_result.start_time misbooked \<noteq> slot.start_time slot1"
    by (simp_all add: SPOC1_def misbooked_def slot1_def)
  show ?thesis
    unfolding selecting_again
    using selection sent stored differs by simp
qed

text \<open>
  Claim C8, amended. Take a slot selection followed by any operations other than a slot
  selection, and then a confirmation whose booking request is sent and answered with a
  result. The request carries the SPOC id and the slot id of that selection and the
  chosen meeting type, it is the only request sent, and the booking stored is the remote
  service's answer to that request, unchanged. Whether that answer is for the SPOC and
  the slot of the request is up to the remote service.
\<close>

theorem confirmed_booking_matches_selection:
  assumes "\<forall>x\<in>set ops. \<not> isSelectSlot (snd x)"
      and "(CreateBooking bd, st)
             \<in> set (snd (handleBookingConfirm env meetingType
                           (run ops (handleSlotSelection spocId slot s))))"
      and "bookingApi_create env bd = Inr response_data"
  shows "booking_data.spoc_id bd = spocId \<and>
         booking_data.slot_id bd = slot.slot_id slot \<and>
         meeting_type bd = meetingType \<and>
         map fst (snd (handleBookingConfirm env meetingType
                         (run ops (handleSlotSelection spocId slot s)))) = [CreateBooking bd] \<and>
         bookingResult (fst (handleBookingConfirm env meetingType
                         (run ops (handleSlotSelection spocId slot s)))) = Some response_data \<and>
         step (fst (handleBookingConfirm env meetingType
                         (run ops (handleSlotSelection spocId slot s)))) = Success"
proof -
  let ?s = "run ops (handleSlotSelection spocId slot s)"
  from assms(2) have built: "bookingData ?s meetingType = Inr bd"
    by (simp add: booking_call_issued)
  then obtain sp sl where
    sel: "selectedSpoc ?s = Some sp" "selectedSlot ?s = Some sl" and
    bd: "bd = \<lparr>client_id = clientId ?s, spoc_id = spoc.spoc_id sp,
               slot_id = slot.slot_id sl, meeting_type = meetingType\<rparr>"
    using bookingData_Inr by blast
  from run_keeps_selection [OF assms(1) sel]
  have first: "selectedSpoc (handleSlotSelection spocId slot s) = Some sp"
    and "selectedSlot (handleSlotSelection spocId slot s) = Some sl"
    by simp_all
  then have "sl = slot"
    by (simp add: handleSlotSelection_def Let_def)
  moreover from first have "spoc.spoc_id sp = spocId"
    by (simp add: handleSlotSelection_selected)
  ultimately have ids: "booking_data.spoc_id bd = spocId"
      "booking_data.slot_id bd = slot.slot_id slot" "meeting_type bd = meetingType"
    using bd by simp_all
  show ?thesis
    by (simp add: ids handleBookingConfirm_succeeds [OF built assms(3)])
qed

theorem confirmed_booking_matches_selection_witness:
  "\<not> isSelectSlot (ConfirmBooking ''Technical Demo'') \<and>
   (CreateBooking \<lparr>client_id = Some ''C-1'', spoc_id = ''SPOC1'', slot_id = ''slot#1'',
        meeting_type = ''Technical Demo''\<rparr>,
      selecting\<lparr>isLoading := True, error := None\<rparr>)
     \<in> set (snd (handleBookingConfirm service ''Technical Demo''
          (run [(service_conflict, ConfirmBooking ''Technical Demo'')]
             (handleSlotSelection ''SPOC1'' slot1 reviewing)))) \<and>
   bookingApi_create service
     \<lparr>client_id = Some ''C-1'', spoc_id = ''SPOC1'', slot_id = ''slot#1'',
      meeting_type = ''Technical Demo''\<rparr> = Inr booked \<and>
   slot.slot_id slot1 = ''slot#1'' \<and>
   bookingResult (fst (handleBookingConfirm service ''Technical Demo''
          (run [(service_conflict, ConfirmBooking ''Technical Demo'')]
             (handleSlotSelection ''SPOC1'' slot1 reviewing)))) = Some booked \<and>
   step (fst (handleBookingConfirm service ''Technical Demo''
          (run [(service_conflict, ConfirmBooking ''Technical Demo'')]
             (handleSlotSelection ''SPOC1'' slot1 reviewing)))) = Success"
proof -
  have ops: "\<forall>x\<in>set [(service_conflict, ConfirmBooking ''Technical Demo'')]. \<not> isSelectSlot (snd x)"
    by simp
  have retried: "run [(service_conflict, ConfirmBooking ''Technical Demo'')]
        (handleSlotSelection ''SPOC1'' slot1 reviewing)
      = selecting\<lparr>isLoading := False, error := Some ''Slot is no longer available''\<rparr>"
    by (simp only: run.simps selecting_again exec_failed_confirm)
  have sent: "(CreateBooking \<lparr>client_id = Some ''C-1'', spoc_id = ''SPOC1'',
        slot_id = ''slot#1'', meeting_type = ''Technical Demo''\<rparr>,
      selecting\<lparr>isLoading := True, error := None\<rparr>)
     \<in> set (snd (handleBookingConfirm service ''Technical Demo''
          (run [(service_conflict, ConfirmBooking ''Technical Demo'')]
             (handleSlotSelection ''SPOC1'' slot1 reviewing))))"
    by (simp only: retried) (simp add: booking_call_issued bookingData_selecting)
  have ok: "bookingApi_create service
     \<lparr>client_id = Some ''C-1'', spoc_id = ''SPOC1'', slot_id = ''slot#1'',
      meeting_type = ''Technical Demo''\<rparr> = Inr booked"
    by (simp add: service_calls)
  from confirmed_booking_matches_selection [OF ops sent ok]
  show ?thesis
    using sent ok by (simp add: slot1_def)
qed


section \<open>Resetting\<close>

text \<open>
  Claim C9. Calling \<^verbatim>\<open>handleReset\<close> twice gives the same session as calling it once:
  the step is \<open>Form\<close>, and the submission, the client id, the SPOC list, the selection,
  the booking result and the error are cleared.
\<close>

theorem reset_idempotent:
  "handleReset (handleReset s) = handleReset s \<and>
   step (handleReset s) = Form \<and>
   clientData (handleReset s) = None \<and>
   clientId (handleReset s) = None \<and>
   spocs (handleReset s) = [] \<and>
   selectedSpoc (handleReset s) = None \<and>
   selectedSlot (handleReset s) = None \<and>
   bookingResult (handleReset s) = None \<and>
   error (handleReset s) = None"
  by (simp add: handleReset_def)


section \<open>The error field\<close>

text \<open>
  Claim C10. Every remote call of \<^verbatim>\<open>handleClientSubmit\<close> and of
  \<^verbatim>\<open>handleBookingConfirm\<close> is issued with the error field cleared (and a submission
  always issues one), and an error shown when either handler has finished is the message
  of a failure of that very run, never one left over from before.
\<close>

theorem async_operations_clear_error_first:
  "(\<forall>c\<in>set (snd (handleClientSubmit env formData s)). error (snd c) = None) \<and>
   (\<forall>c\<in>set (snd (handleBookingConfirm env meetingType s)). error (snd c) = None) \<and>
   snd (handleClientSubmit env formData s) \<noteq> [] \<and>
   (\<forall>msg. error (fst (handleClientSubmit env formData s)) = Some msg \<longrightarrow>
      (\<exists>err. (clientApi_create env formData = Inl err \<or>
               (\<exists>clientResponse. clientApi_create env formData = Inr clientResponse \<and>
                  spocApi_getAll env (solution_type formData) = Inl err)) \<and>
              msg = or_else (err_detail err) ''Failed to process request.'')) \<and>
   (\<forall>msg. error (fst (handleBookingConfirm env meetingType s)) = Some msg \<longrightarrow>
      (\<exists>err. (bookingData s meetingType = Inl err \<or>
               (\<exists>bd. bookingData s meetingType = Inr bd \<and>
                  bookingApi_create env bd = Inl err)) \<and>
              msg = or_else (err_detail err) ''Booking failed.''))"
proof (intro conjI ballI allI impI)
  show "snd (handleClientSubmit env formData s) \<noteq> []"
    by (simp add: handleClientSubmit_def handleClientSubmit_try_def Let_def split: sum.splits)
next
  fix c assume "c \<in> set (snd (handleClientSubmit env formData s))"
  then show "error (snd c) = None" by (rule clientSubmit_calls_clean)
next
  fix c assume "c \<in> set (snd (handleBookingConfirm env meetingType s))"
  then show "error (snd c) = None" by (rule bookingConfirm_calls_clean)
next
  fix msg assume "error (fst (handleClientSubmit env formData s)) = Some msg"
  then show "\<exists>err. (clientApi_create env formData = Inl err \<or>
               (\<exists>clientResponse. clientApi_create env formData = Inr clientResponse \<and>
                  spocApi_getAll env (solution_type formData) = Inl err)) \<and>
              msg = or_else (err_detail err) ''Failed to process request.''"
    by (rule clientSubmit_error_origin)
next
  fix msg assume "error (fst (handleBookingConfirm env meetingType s)) = Some msg"
  then show "\<exists>err. (bookingData s meetingType = Inl err \<or>
               (\<exists>bd. bookingData s meetingType = Inr bd \<and>
                  bookingApi_create env bd = Inl err)) \<and>
              msg = or_else (err_detail err) ''Booking failed.''"
    by (rule bookingConfirm_error_origin)
qed

theorem async_operations_clear_error_first_witness:
  "error (exec service_conflict (ConfirmBooking ''Technical Demo'') selecting)
     = Some ''Slot is no longer available'' \<and>
   map fst (snd (handleBookingConfirm service ''Technical Demo''
      (exec service_conflict (ConfirmBooking ''Technical Demo'') selecting)))
     = [CreateBooking \<lparr>client_id = Some ''C-1'', spoc_id = ''SPOC1'', slot_id = ''slot#1'',
          meeting_type = ''Technical Demo''\<rparr>] \<and>
   error (snd (hd (snd (handleBookingConfirm service ''Technical Demo''
      (exec service_conflict (ConfirmBooking ''Technical Demo'') selecting))))) = None \<and>
   error (fst (handleBookingConfirm service ''Technical Demo''
      (exec service_conflict (ConfirmBooking ''Technical Demo'') selecting))) = None"
proof -
  let ?stale = "exec service_conflict (ConfirmBooking ''Technical Demo'') selecting"
  have built: "bookingData ?stale ''Technical Demo''
      = Inr \<lparr>client_id = Some ''C-1'', spoc_id = ''SPOC1'', slot_id = ''slot#1'',
          meeting_type = ''Technical Demo''\<rparr>"
    by (simp only: exec_failed_confirm) (simp add: bookingData_selecting)
  note retry = handleBookingConfirm_succeeds [OF built service_calls(5)]
  have sent: "map fst (snd (handleBookingConfirm service ''Technical Demo'' ?stale))
      = [CreateBooking \<lparr>client_id = Some ''C-1'', spoc_id = ''SPOC1'', slot_id = ''slot#1'',
          meeting_type = ''Technical Demo''\<rparr>]"
    by (simp only: retry) simp
  then have "hd (snd (handleBookingConfirm service ''Technical Demo'' ?stale))
      \<in> set (snd (handleBookingConfirm service ''Technical Demo'' ?stale))"
    by (intro hd_in_set) auto
  with async_operations_clear_error_first [of service acme ?stale "''Technical Demo''"]
  have clean: "error (snd (hd (snd (handleBookingConfirm service ''Technical Demo'' ?stale)))) = None"
    by blast
  have settled: "error (fst (handleBookingConfirm service ''Technical Demo'' ?stale)) = None"
    by (simp only: retry) simp
  show ?thesis
    using stale_error sent clean settled by simp
qed


end
